theory Spec2Isabelle
  imports Main "HOL-Library.Word" "HOL-Library.Sublist"
begin

section \<open>The JSON logical-decoding output plugin (json_decoding.c)\<close>

text \<open>
  A shallow embedding of the output plugin. C strings are \<open>string\<close>s without a NUL
  byte, a \<open>StringInfo\<close> buffer is the text appended so far, a pointer that may be
  \<open>NULL\<close> is an \<open>option\<close>, and an \<open>ereport(ERROR, ...)\<close>, a failed assertion
  or a dereferenced \<open>NULL\<close> is the left summand of the result.
\<close>

subsection \<open>Types and constants of the host (PostgreSQL 11 headers)\<close>

type_synonym Oid = "32 word"
type_synonym TransactionId = "32 word"
type_synonym TimestampTz = "64 word"
type_synonym RepOriginId = "16 word"
type_synonym AttrNumber = "16 word"

text \<open>Type identifiers of \<^verbatim>\<open>catalog/pg_type.h\<close>.\<close>

definition BOOLOID :: Oid where "BOOLOID = 16"
definition INT8OID :: Oid where "INT8OID = 20"
definition INT2OID :: Oid where "INT2OID = 21"
definition INT4OID :: Oid where "INT4OID = 23"
definition TEXTOID :: Oid where "TEXTOID = 25"
definition OIDOID :: Oid where "OIDOID = 26"
definition FLOAT4OID :: Oid where "FLOAT4OID = 700"
definition FLOAT8OID :: Oid where "FLOAT8OID = 701"
definition TIMESTAMPOID :: Oid where "TIMESTAMPOID = 1114"
definition BITOID :: Oid where "BITOID = 1560"
definition VARBITOID :: Oid where "VARBITOID = 1562"
definition NUMERICOID :: Oid where "NUMERICOID = 1700"

lemmas oid_defs =
  BOOLOID_def INT8OID_def INT2OID_def INT4OID_def TEXTOID_def OIDOID_def FLOAT4OID_def
  FLOAT8OID_def TIMESTAMPOID_def BITOID_def VARBITOID_def NUMERICOID_def

text \<open>\<^verbatim>\<open>replication/origin.h\<close>: the origin of a change made locally.\<close>

definition InvalidRepOriginId :: RepOriginId where "InvalidRepOriginId = 0"

text \<open>
  \<^verbatim>\<open>c.h\<close>: \<^verbatim>\<open>#define SQL_STR_DOUBLE(ch, escape_backslash)
  ((ch) == '\'' || ((ch) == '\\' && (escape_backslash)))\<close>, the characters that an SQL
  string literal doubles: the single quote, and the backslash when asked.
\<close>

definition SQL_STR_DOUBLE :: "char \<Rightarrow> bool \<Rightarrow> bool" where
  "SQL_STR_DOUBLE ch escape_backslash = (ch = CHR 0x27 \<or> (ch = CHR 0x5C \<and> escape_backslash))"

text \<open>
  The services of the host that the plugin calls and that are no part of it: the boolean
  parser (\<open>None\<close> when the text is no boolean), identifier quoting, the text of a commit
  time, two catalog lookups (the name of a relation, and whether the output function
  of a type works on a variable-length value, as \<^verbatim>\<open>getTypeOutputInfo\<close> reports it),
  and whether the build checks assertions: without \<^verbatim>\<open>USE_ASSERT_CHECKING\<close> the macro
  \<^verbatim>\<open>Assert\<close> of \<^verbatim>\<open>c.h\<close> expands to nothing. The theorems below hold for every
  host, unless they name one.
\<close>

record host =
  parse_bool :: "string \<Rightarrow> bool option"
  quote_identifier :: "string \<Rightarrow> string"
  quote_qualified_identifier :: "string \<Rightarrow> string \<Rightarrow> string"
  timestamptz_to_str :: "TimestampTz \<Rightarrow> string"
  get_rel_name :: "Oid \<Rightarrow> string"
  typisvarlena :: "Oid \<Rightarrow> bool"
  USE_ASSERT_CHECKING :: bool

text \<open>\<^verbatim>\<open>%u\<close> of \<^verbatim>\<open>appendStringInfo\<close>: an unsigned number in decimal.\<close>

fun decimal :: "nat \<Rightarrow> string" where
  "decimal n =
     (if n < 10 then [''0123456789'' ! n]
      else decimal (n div 10) @ [''0123456789'' ! (n mod 10)])"

declare decimal.simps [simp del]

subsection \<open>Data of the plugin and of the replay engine\<close>

datatype error =
    ERRCODE_INVALID_PARAMETER_VALUE string  \<comment> \<open>\<open>ereport(ERROR, ...)\<close> with its message\<close>
  | NULL_POINTER_DEREFERENCE                \<comment> \<open>\<open>strVal\<close> of a \<open>NULL\<close> node\<close>
  | ASSERT_FAILURE                          \<comment> \<open>\<open>Assert(false)\<close> with assertion checking\<close>

record JsonDecodingData =
  include_xids :: bool
  include_timestamp :: bool
  skip_empty_xacts :: bool
  xact_wrote_changes :: bool
  only_local :: bool
  include_messages :: bool
  include_toast_datum :: bool
  xid :: TransactionId
  commit_time :: TimestampTz

text \<open>An option of the startup command: \<open>elem->defname\<close> and \<open>elem->arg\<close>.\<close>

record DefElem =
  defname :: string
  arg :: "string option"

datatype OutputPluginOutputType =
  OUTPUT_PLUGIN_BINARY_OUTPUT | OUTPUT_PLUGIN_TEXTUAL_OUTPUT

record OutputPluginOptions =
  output_type :: OutputPluginOutputType
  receive_rewrites :: bool

text \<open>
  The decoding context: the options of the session, the private data of the plugin, the
  output buffer \<open>ctx->out\<close>, and the records that \<^verbatim>\<open>OutputPluginWrite\<close> has handed
  to the transport, oldest first.
\<close>

record LogicalDecodingContext =
  output_plugin_options :: "DefElem list"
  output_plugin_private :: JsonDecodingData
  out :: string
  written :: "string list"

record ReorderBufferTXN =
  txn_xid :: TransactionId
  txn_commit_time :: TimestampTz

record FormData_pg_attribute =
  attname :: string
  atttypid :: Oid
  attnum :: AttrNumber
  attisdropped :: bool

text \<open>
  A value of a row that is not \<open>NULL\<close>, with the text that the output function of its
  type gives for it: stored in the row, or stored out of line on disk.
\<close>

datatype Datum = Inline string | ExternalOnDisk string

text \<open>A row: one entry for each column it stores, \<open>None\<close> for \<open>NULL\<close>.\<close>

type_synonym HeapTuple = "Datum option list"

record Relation =
  nspname :: string   \<comment> \<open>\<open>get_namespace_name(get_rel_namespace(RelationGetRelid(relation)))\<close>\<close>
  relname :: string
  relrewrite :: Oid
  rd_att :: "FormData_pg_attribute list"

datatype ReorderBufferChangeType =
    REORDER_BUFFER_CHANGE_INSERT
  | REORDER_BUFFER_CHANGE_UPDATE
  | REORDER_BUFFER_CHANGE_DELETE
  | REORDER_BUFFER_CHANGE_MESSAGE
  | REORDER_BUFFER_CHANGE_INTERNAL_SNAPSHOT
  | REORDER_BUFFER_CHANGE_INTERNAL_COMMAND_ID
  | REORDER_BUFFER_CHANGE_INTERNAL_TUPLECID
  | REORDER_BUFFER_CHANGE_INTERNAL_SPEC_INSERT
  | REORDER_BUFFER_CHANGE_INTERNAL_SPEC_CONFIRM
  | REORDER_BUFFER_CHANGE_TRUNCATE

record ReorderBufferChange =
  action :: ReorderBufferChangeType
  oldtuple :: "HeapTuple option"
  newtuple :: "HeapTuple option"

subsection \<open>Helpers\<close>

definition hasParameter :: "DefElem \<Rightarrow> string \<Rightarrow> bool" where
  "hasParameter elem param = (defname elem = param)"

definition isSystemColumn :: "FormData_pg_attribute \<Rightarrow> bool" where
  "isSystemColumn attr = (sint (attnum attr) < 0)"

definition isColumnDeleted :: "FormData_pg_attribute \<Rightarrow> bool" where
  "isColumnDeleted attr = attisdropped attr"

text \<open>Both reports end the startup; the value is the error that is raised.\<close>

definition reportErrorInvalidParam :: "DefElem \<Rightarrow> error" where
  \<open>reportErrorInvalidParam elem =
     (case arg elem of
        None \<Rightarrow> NULL_POINTER_DEREFERENCE
      | Some v \<Rightarrow> ERRCODE_INVALID_PARAMETER_VALUE
          (''could not parse value "'' @ v @ ''" for parameter "'' @ defname elem @ ''"''))\<close>

definition reportUnknownParam :: "DefElem \<Rightarrow> error" where
  \<open>reportUnknownParam elem =
     ERRCODE_INVALID_PARAMETER_VALUE
       (''option "'' @ defname elem @ ''" = "'' @
        (case arg elem of Some v \<Rightarrow> v | None \<Rightarrow> ''(null)'') @ ''" is unknown'')\<close>

definition pg_output_begin ::
  "LogicalDecodingContext \<Rightarrow> JsonDecodingData \<Rightarrow> ReorderBufferTXN \<Rightarrow> bool \<Rightarrow> JsonDecodingData"
where
  "pg_output_begin ctx data txn last_write =
     (let data = (if include_xids data then data\<lparr>xid := txn_xid txn\<rparr> else data);
          data = (if include_timestamp data then data\<lparr>commit_time := txn_commit_time txn\<rparr>
                  else data)
      in data)"

subsection \<open>Startup\<close>

text \<open>
  \<^verbatim>\<open>has_parser_error = !parse_bool(strVal(elem->arg), &field)\<close> together with the test
  of \<open>has_parser_error\<close> that ends the loop body: \<open>strVal\<close> reads through
  \<open>elem->arg\<close>, the parsed value is stored by \<open>store\<close>, and a text that is no
  boolean is reported by \<open>reportErrorInvalidParam\<close>.
\<close>

definition parse_bool_arg :: "host \<Rightarrow> DefElem \<Rightarrow> (bool \<Rightarrow> 's) \<Rightarrow> error + 's" where
  "parse_bool_arg h elem store =
     (case arg elem of
        None \<Rightarrow> Inl NULL_POINTER_DEREFERENCE
      | Some v \<Rightarrow>
          (case parse_bool h v of
             Some b \<Rightarrow> Inr (store b)
           | None \<Rightarrow> Inl (reportErrorInvalidParam elem)))"

text \<open>The body of the \<open>foreach\<close> loop of \<open>pg_decode_startup\<close>, for one option.\<close>

definition startup_option ::
  "host \<Rightarrow> DefElem \<Rightarrow> JsonDecodingData \<times> OutputPluginOptions \<Rightarrow>
   error + JsonDecodingData \<times> OutputPluginOptions"
where
  "startup_option h elem st =
     (case st of (data, opt) \<Rightarrow>
        if hasParameter elem ''include-xids'' \<and> arg elem \<noteq> None then
          parse_bool_arg h elem (\<lambda>b. (data\<lparr>include_xids := b\<rparr>, opt))
        else if hasParameter elem ''include-timestamp'' \<and> arg elem \<noteq> None then
          parse_bool_arg h elem (\<lambda>b. (data\<lparr>include_timestamp := b\<rparr>, opt))
        else if hasParameter elem ''skip-empty-xacts'' \<and> arg elem \<noteq> None then
          parse_bool_arg h elem (\<lambda>b. (data\<lparr>skip_empty_xacts := b\<rparr>, opt))
        else if hasParameter elem ''only-local'' then
          (if arg elem \<noteq> None then Inr (data\<lparr>only_local := True\<rparr>, opt)
           else parse_bool_arg h elem (\<lambda>b. (data\<lparr>only_local := b\<rparr>, opt)))
        else if hasParameter elem ''include-rewrites'' \<and> arg elem \<noteq> None then
          parse_bool_arg h elem (\<lambda>b. (data, opt\<lparr>receive_rewrites := b\<rparr>))
        else if hasParameter elem ''include-toast-datum'' \<and> arg elem \<noteq> None then
          parse_bool_arg h elem (\<lambda>b. (data\<lparr>include_toast_datum := b\<rparr>, opt))
        else Inl (reportUnknownParam elem))"

fun startup_options ::
  "host \<Rightarrow> DefElem list \<Rightarrow> JsonDecodingData \<times> OutputPluginOptions \<Rightarrow>
   error + JsonDecodingData \<times> OutputPluginOptions"
where
  "startup_options h [] st = Inr st"
| "startup_options h (elem # rest) st =
     (case startup_option h elem st of
        Inl e \<Rightarrow> Inl e
      | Inr st' \<Rightarrow> startup_options h rest st')"

text \<open>The private data after \<open>palloc0\<close> and the six assignments of the defaults.\<close>

definition startup_data :: JsonDecodingData where
  "startup_data =
     \<lparr>include_xids = True, include_timestamp = True, skip_empty_xacts = True,
      xact_wrote_changes = False, only_local = False, include_messages = False,
      include_toast_datum = True, xid = 0, commit_time = 0\<rparr>"

definition pg_decode_startup ::
  "host \<Rightarrow> LogicalDecodingContext \<Rightarrow> OutputPluginOptions \<Rightarrow> bool \<Rightarrow>
   error + LogicalDecodingContext \<times> OutputPluginOptions"
where
  "pg_decode_startup h ctx opt is_init =
     (let data = startup_data;
          ctx = ctx\<lparr>output_plugin_private := data\<rparr>;
          opt = opt\<lparr>output_type := OUTPUT_PLUGIN_TEXTUAL_OUTPUT, receive_rewrites := False\<rparr>
      in case startup_options h (output_plugin_options ctx) (data, opt) of
           Inl e \<Rightarrow> Inl e
         | Inr (data, opt) \<Rightarrow> Inr (ctx\<lparr>output_plugin_private := data\<rparr>, opt))"

subsection \<open>Transactions and the origin filter\<close>

definition pg_decode_begin :: "LogicalDecodingContext \<Rightarrow> ReorderBufferTXN \<Rightarrow> LogicalDecodingContext"
where
  "pg_decode_begin ctx txn =
     (let data = output_plugin_private ctx;
          data = data\<lparr>xact_wrote_changes := False\<rparr>
      in if skip_empty_xacts data then ctx\<lparr>output_plugin_private := data\<rparr>
         else ctx\<lparr>output_plugin_private := pg_output_begin ctx data txn True\<rparr>)"

definition pg_decode_commit ::
  "LogicalDecodingContext \<Rightarrow> ReorderBufferTXN \<Rightarrow> 64 word \<Rightarrow> LogicalDecodingContext"
where
  "pg_decode_commit ctx txn commit_lsn = ctx"

definition pg_decode_filter :: "LogicalDecodingContext \<Rightarrow> RepOriginId \<Rightarrow> bool" where
  "pg_decode_filter ctx origin_id =
     (let data = output_plugin_private ctx
      in only_local data \<and> origin_id \<noteq> InvalidRepOriginId)"

subsection \<open>The literal of a value\<close>

text \<open>The loop of the default case: every character, doubled when the macro says so.\<close>

fun print_literal_chars :: "string \<Rightarrow> string \<Rightarrow> string" where
  "print_literal_chars s [] = s"
| "print_literal_chars s (ch # valptr) =
     print_literal_chars ((if SQL_STR_DOUBLE ch False then s @ [ch] else s) @ [ch]) valptr"

definition print_literal :: "string \<Rightarrow> Oid \<Rightarrow> string \<Rightarrow> string" where
  \<open>print_literal s typid outputstr =
     (if typid = INT2OID \<or> typid = INT4OID \<or> typid = INT8OID \<or> typid = OIDOID \<or>
         typid = FLOAT4OID \<or> typid = FLOAT8OID \<or> typid = NUMERICOID
      then s @ outputstr
      else if typid = BITOID \<or> typid = VARBITOID
      then s @ ''"'' @ outputstr @ ''"''
      else if typid = BOOLOID
      then (if outputstr = ''t'' then s @ ''true'' else s @ ''false'')
      else print_literal_chars (s @ ''"'') outputstr @ ''"'')\<close>

subsection \<open>The fields of a row\<close>

text \<open>
  \<^verbatim>\<open>heap_getattr(tuple, n, tupdesc, &isnull)\<close>: the value of column \<open>n\<close>, counted
  from one; a column that the row does not store reads as \<open>NULL\<close>.
\<close>

definition heap_getattr :: "HeapTuple \<Rightarrow> nat \<Rightarrow> Datum option" where
  "heap_getattr tuple n = (if 0 < n \<and> n \<le> length tuple then tuple ! (n - 1) else None)"

definition VARATT_IS_EXTERNAL_ONDISK :: "Datum \<Rightarrow> bool" where
  "VARATT_IS_EXTERNAL_ONDISK d = (case d of ExternalOnDisk t \<Rightarrow> True | Inline t \<Rightarrow> False)"

text \<open>Fetching a value that is stored out of line, and the text of a value.\<close>

definition PG_DETOAST_DATUM :: "Datum \<Rightarrow> Datum" where
  "PG_DETOAST_DATUM d = (case d of ExternalOnDisk t \<Rightarrow> Inline t | Inline t \<Rightarrow> Inline t)"

definition OidOutputFunctionCall :: "Datum \<Rightarrow> string" where
  "OidOutputFunctionCall d = (case d of ExternalOnDisk t \<Rightarrow> t | Inline t \<Rightarrow> t)"

text \<open>
  The body of the loop of \<open>tuple_to_json_fields\<close> for column \<open>natt\<close> once it is known
  to be written: separator, quoted name, colon, value.
\<close>

definition tuple_to_json_field ::
  "host \<Rightarrow> string \<Rightarrow> nat \<Rightarrow> FormData_pg_attribute \<Rightarrow> Datum option \<Rightarrow> bool \<Rightarrow> string"
where
  \<open>tuple_to_json_field h s natt attr origval include_toast =
     (let typid = atttypid attr;
          s = (if natt > 0 then s @ '','' else s);
          s = s @ '' "'';
          s = s @ quote_identifier h (attname attr);
          s = s @ ''"'';
          s = s @ '':'';
          s = s @ '' ''
      in case origval of
           None \<Rightarrow> s @ ''null''
         | Some d \<Rightarrow>
             if typisvarlena h typid \<and> VARATT_IS_EXTERNAL_ONDISK d \<and> \<not> include_toast
             then s @ ''unchanged-toast-datum''
             else if \<not> typisvarlena h typid
             then print_literal s typid (OidOutputFunctionCall d)
             else print_literal s typid (OidOutputFunctionCall (PG_DETOAST_DATUM d)))\<close>

text \<open>
  The loop, from column \<open>natt\<close> on: the list holds the descriptors of the columns
  \<open>natt\<close>, \<open>natt + 1\<close>, ... that are still to be visited.
\<close>

fun tuple_to_json_fields_from ::
  "host \<Rightarrow> string \<Rightarrow> nat \<Rightarrow> FormData_pg_attribute list \<Rightarrow> HeapTuple \<Rightarrow> bool \<Rightarrow> bool \<Rightarrow> string"
where
  "tuple_to_json_fields_from h s natt [] tuple skip_nulls include_toast = s"
| "tuple_to_json_fields_from h s natt (attr # attrs) tuple skip_nulls include_toast =
     (if isColumnDeleted attr \<or> isSystemColumn attr
      then tuple_to_json_fields_from h s (natt + 1) attrs tuple skip_nulls include_toast
      else
        let origval = heap_getattr tuple (natt + 1);
            isnull = (origval = None)
        in if isnull \<and> skip_nulls
           then tuple_to_json_fields_from h s (natt + 1) attrs tuple skip_nulls include_toast
           else tuple_to_json_fields_from h
                  (tuple_to_json_field h s natt attr origval include_toast)
                  (natt + 1) attrs tuple skip_nulls include_toast)"

definition tuple_to_json_fields ::
  "host \<Rightarrow> string \<Rightarrow> FormData_pg_attribute list \<Rightarrow> HeapTuple \<Rightarrow> bool \<Rightarrow> bool \<Rightarrow> string"
where
  "tuple_to_json_fields h s tupdesc tuple skip_nulls include_toast =
     tuple_to_json_fields_from h s 0 tupdesc tuple skip_nulls include_toast"

subsection \<open>A change\<close>

text \<open>
  \<^verbatim>\<open>OutputPluginPrepareWrite\<close> empties the buffer, \<^verbatim>\<open>OutputPluginWrite\<close> hands its
  text over. The \<open>default\<close> case of the \<open>switch\<close> is \<open>Assert(false)\<close>.
\<close>

definition pg_decode_change ::
  "host \<Rightarrow> LogicalDecodingContext \<Rightarrow> ReorderBufferTXN \<Rightarrow> Relation \<Rightarrow> ReorderBufferChange \<Rightarrow>
   error + LogicalDecodingContext"
where
  \<open>pg_decode_change h ctx txn relation change =
     (let data = output_plugin_private ctx;
          data = (if skip_empty_xacts data \<and> \<not> xact_wrote_changes data
                  then pg_output_begin ctx data txn False else data);
          data = data\<lparr>xact_wrote_changes := True\<rparr>;
          tupdesc = rd_att relation;
          toast = include_toast_datum data;
          s = [];
          s = s @ ''{ "pg_change_table": "'';
          s = s @ quote_qualified_identifier h (nspname relation)
                    (if relrewrite relation \<noteq> 0 then get_rel_name h (relrewrite relation)
                     else relname relation);
          s = s @ ''", '';
          s = (if include_timestamp data
               then s @ ''"pg_change_tnx_time": "'' @ timestamptz_to_str h (txn_commit_time txn)
                      @ ''", ''
               else s);
          s = (if include_xids data
               then s @ ''"pg_change_tnx_id": '' @ decimal (unat (txn_xid txn)) @ '', ''
               else s);
          s = s @ '' "pg_change_type": ''
      in case
           (case action change of
              REORDER_BUFFER_CHANGE_INSERT \<Rightarrow>
                (let s = s @ ''"INSERT", ''
                 in Inr (case newtuple change of
                           Some t \<Rightarrow> tuple_to_json_fields h s tupdesc t False toast
                         | None \<Rightarrow> s))
            | REORDER_BUFFER_CHANGE_UPDATE \<Rightarrow>
                (let s = s @ ''"UPDATE", '';
                     s = (case oldtuple change of
                            Some t \<Rightarrow>
                              tuple_to_json_fields h (s @ '' "old_primary_key": { '')
                                tupdesc t True toast @ '' }, ''
                          | None \<Rightarrow> s)
                 in Inr (case newtuple change of
                           Some t \<Rightarrow> tuple_to_json_fields h s tupdesc t False toast
                         | None \<Rightarrow> s))
            | REORDER_BUFFER_CHANGE_DELETE \<Rightarrow>
                (let s = s @ ''"DELETE", ''
                 in Inr (case oldtuple change of
                           Some t \<Rightarrow> tuple_to_json_fields h s tupdesc t True toast
                         | None \<Rightarrow> s))
            | _ \<Rightarrow> if USE_ASSERT_CHECKING h then Inl ASSERT_FAILURE else Inr s)
         of
           Inl e \<Rightarrow> Inl e
         | Inr s \<Rightarrow>
             (let s = s @ '' }''
              in Inr (ctx\<lparr>output_plugin_private := data, out := s,
                          written := written ctx @ [s]\<rparr>)))\<close>

subsection \<open>A host and a table for the examples\<close>

text \<open>
  One host among those the theorems range over, on which the examples are evaluated: its
  boolean parser knows the words \<open>true\<close> and \<open>false\<close>, its identifiers need no
  quotes, every type other than the integers, the boolean and the timestamp is of
  variable length, every commit time reads as the one of the example, and assertions are
  not checked, as in a production build.
\<close>

definition example_host :: host where
  "example_host =
     \<lparr>parse_bool = (\<lambda>v. if v = ''true'' then Some True
                        else if v = ''false'' then Some False else None),
      quote_identifier = (\<lambda>ident. ident),
      quote_qualified_identifier = (\<lambda>qualifier ident. qualifier @ ''.'' @ ident),
      timestamptz_to_str = (\<lambda>t. ''2019-02-19 00:52:28.467626-05''),
      get_rel_name = (\<lambda>relid. ''rewritten''),
      typisvarlena = (\<lambda>typid. typid \<notin> {INT2OID, INT4OID, INT8OID, BOOLOID, TIMESTAMPOID}),
      USE_ASSERT_CHECKING = False\<rparr>"

definition example_ctx :: LogicalDecodingContext where
  "example_ctx =
     \<lparr>output_plugin_options = [], output_plugin_private = startup_data, out = [],
      written = []\<rparr>"

definition example_opt :: OutputPluginOptions where
  "example_opt = \<lparr>output_type = OUTPUT_PLUGIN_BINARY_OUTPUT, receive_rewrites = False\<rparr>"

definition test_table :: Relation where
  "test_table =
     \<lparr>nspname = ''public'', relname = ''test_table'', relrewrite = 0,
      rd_att =
        [\<lparr>attname = ''id'', atttypid = INT4OID, attnum = 1, attisdropped = False\<rparr>,
         \<lparr>attname = ''state'', atttypid = BOOLOID, attnum = 2, attisdropped = False\<rparr>,
         \<lparr>attname = ''date'', atttypid = TIMESTAMPOID, attnum = 3, attisdropped = False\<rparr>]\<rparr>"

definition example_txn :: ReorderBufferTXN where
  "example_txn = \<lparr>txn_xid = 4542284, txn_commit_time = 603870748467626\<rparr>"

definition example_insert :: ReorderBufferChange where
  "example_insert =
     \<lparr>action = REORDER_BUFFER_CHANGE_INSERT, oldtuple = None,
      newtuple = Some [Some (Inline ''6''), Some (Inline ''t''),
                       Some (Inline ''2019-02-14 14:36:20.308138'')]\<rparr>"



text \<open>A table with a column of variable length between two columns of fixed length.\<close>

definition toast_table :: "FormData_pg_attribute list" where
  "toast_table =
     [\<lparr>attname = ''id'', atttypid = INT4OID, attnum = 1, attisdropped = False\<rparr>,
      \<lparr>attname = ''body'', atttypid = TEXTOID, attnum = 2, attisdropped = False\<rparr>,
      \<lparr>attname = ''state'', atttypid = BOOLOID, attnum = 3, attisdropped = False\<rparr>]"

section \<open>What the specification says, as definitions\<close>

text \<open>The records that a call has handed to the transport; none when it raised.\<close>

definition records_of :: "error + LogicalDecodingContext \<Rightarrow> string list" where
  "records_of r = (case r of Inl e \<Rightarrow> [] | Inr ctx \<Rightarrow> written ctx)"

text \<open>The literal of the wire format example, byte for byte.\<close>

definition wire_format_example :: string where
  \<open>wire_format_example = ''{"pg_change_table":"public.test_table","pg_change_tnx_time":"2019-02-19 00:52:28.467626-05","pg_change_tnx_id":4542284,"pg_change_operation_type":"INSERT","id":6,"state":true,"date":"2019-02-14 14:36:20.308138"}''\<close>

subsection \<open>The row encoder, column by column\<close>

text \<open>
  The value of a column: \<open>null\<close> for \<open>NULL\<close>, the placeholder for a value stored out
  of line that the session does not fetch, and the literal of its text otherwise.
\<close>

definition json_value :: "host \<Rightarrow> FormData_pg_attribute \<Rightarrow> Datum option \<Rightarrow> bool \<Rightarrow> string" where
  "json_value h attr origval include_toast =
     (case origval of
        None \<Rightarrow> ''null''
      | Some d \<Rightarrow>
          if typisvarlena h (atttypid attr) \<and> VARATT_IS_EXTERNAL_ONDISK d \<and> \<not> include_toast
          then ''unchanged-toast-datum''
          else print_literal [] (atttypid attr) (OidOutputFunctionCall d))"

text \<open>The field of column \<open>natt\<close> as the loop writes it, separator included.\<close>

definition json_field ::
  "host \<Rightarrow> nat \<Rightarrow> FormData_pg_attribute \<Rightarrow> Datum option \<Rightarrow> bool \<Rightarrow> string"
where
  \<open>json_field h natt attr origval include_toast =
     (if natt > 0 then '','' else []) @ '' "'' @ quote_identifier h (attname attr) @ ''": ''
       @ json_value h attr origval include_toast\<close>

text \<open>
  The column filter: a column takes part unless it is dropped, a system column, or
  \<open>NULL\<close> in a row whose \<open>NULL\<close>s are skipped.
\<close>

definition column_written :: "HeapTuple \<Rightarrow> bool \<Rightarrow> nat \<times> FormData_pg_attribute \<Rightarrow> bool" where
  "column_written tuple skip_nulls = (\<lambda>(natt, attr).
     \<not> attisdropped attr \<and> \<not> sint (attnum attr) < 0 \<and>
     \<not> (skip_nulls \<and> heap_getattr tuple (natt + 1) = None))"


subsection \<open>The sections of a record\<close>




subsection \<open>JSON strings\<close>

text \<open>
  The string of RFC 8259: a quotation mark, then characters, then a quotation mark. A
  character is anything but the quotation mark, the backslash and the control codes
  below 0x20, or a backslash with one of \<^verbatim>\<open>" \ / b f n r t\<close>, or a backslash with
  \<open>u\<close> and four hexadecimal digits. \<open>json_string_chars\<close> reads what follows the
  opening mark, up to the closing mark, which ends the text.
\<close>

definition hex_digit :: "char \<Rightarrow> bool" where
  "hex_digit c = (c \<in> set ''0123456789abcdefABCDEF'')"

fun json_string_chars :: "string \<Rightarrow> bool" where
  "json_string_chars [] = False"
| "json_string_chars (c # cs) =
     (if c = CHR 0x22 then cs = []
      else if c = CHR 0x5C then
        (case cs of
           [] \<Rightarrow> False
         | e # r \<Rightarrow>
             if e \<in> set [CHR 0x22, CHR 0x5C, CHR ''/'', CHR ''b'', CHR ''f'', CHR ''n'',
                         CHR ''r'', CHR ''t'']
             then json_string_chars r
             else if e = CHR ''u'' then
               (case r of
                  x1 # x2 # x3 # x4 # r' \<Rightarrow>
                    hex_digit x1 \<and> hex_digit x2 \<and> hex_digit x3 \<and> hex_digit x4 \<and>
                    json_string_chars r'
                | _ \<Rightarrow> False)
             else False)
      else if (of_char c :: nat) < 32 then False
      else json_string_chars cs)"

definition is_json_string :: "string \<Rightarrow> bool" where
  "is_json_string text =
     (case text of [] \<Rightarrow> False | c # cs \<Rightarrow> c = CHR 0x22 \<and> json_string_chars cs)"

subsection \<open>JSON objects\<close>

text \<open>
  A recognizer for the objects of RFC 8259 that nest at most once: the value of a member
  is a string, a number, \<open>true\<close>, \<open>false\<close>, \<open>null\<close>, or an object whose values
  are of these five kinds. Every function reads a prefix of its input and returns what
  follows it, or \<open>None\<close>.
\<close>

definition json_ws :: "char \<Rightarrow> bool" where
  "json_ws c = (c = CHR '' '' \<or> c = CHR 0x09 \<or> c = CHR 0x0A \<or> c = CHR 0x0D)"

definition skip_ws :: "string \<Rightarrow> string" where
  "skip_ws input = dropWhile json_ws input"




















subsection \<open>Separators, and records that are safe\<close>









section \<open>Properties\<close>

subsection \<open>The type literal formatter\<close>

text \<open>
  C7. For a value of the boolean type the formatter appends one of the two unquoted
  spellings \<open>true\<close> and \<open>false\<close>, whatever text the host supplies: \<open>true\<close> for the
  encoding \<open>t\<close>, \<open>false\<close> for the encoding \<open>f\<close> and for every other text.
\<close>

theorem print_literal_bool:
  "print_literal s BOOLOID ''t'' = s @ ''true'' \<and>
   print_literal s BOOLOID ''f'' = s @ ''false'' \<and>
   print_literal s BOOLOID outputstr = s @ (if outputstr = ''t'' then ''true'' else ''false'')"
  by (simp add: print_literal_def oid_defs)

text \<open>
  C4. A text value with a double quote in it should come out as a JSON string that
  decodes to the text. The loop of the default case doubles what \<open>SQL_STR_DOUBLE\<close>
  names, the single quote, and copies the double quote as it is: for the text
  \<^verbatim>\<open>a"b\<close> the field is \<^verbatim>\<open>"a"b"\<close>, which is no JSON string. Nor would
  the field be one with the double quote doubled.
\<close>

theorem print_literal_quote:
  \<open>print_literal [] TEXTOID ''a"b'' = ''"a"b"'' \<and>
   \<not> is_json_string (print_literal [] TEXTOID ''a"b'') \<and>
   \<not> is_json_string ''"a""b"''\<close>
  by (simp add: print_literal_def oid_defs SQL_STR_DOUBLE_def is_json_string_def)

lemma print_literal_chars_concat:
  "print_literal_chars s outputstr =
     s @ concat (map (\<lambda>ch. if SQL_STR_DOUBLE ch False then [ch, ch] else [ch]) outputstr)"
  by (induction outputstr arbitrary: s) simp_all

lemma print_literal_append:
  "print_literal s typid outputstr = s @ print_literal [] typid outputstr"
  by (simp add: print_literal_def print_literal_chars_concat [of "s @ _"]
      print_literal_chars_concat [of "[_]"])

subsection \<open>Startup options\<close>

lemma startup_options_append:
  "startup_options h (pre @ rest) st =
     (case startup_options h pre st of
        Inl e \<Rightarrow> Inl e
      | Inr st' \<Rightarrow> startup_options h rest st')"
  by (induction pre arbitrary: st) (auto split: sum.splits)

lemma startup_option_no_value:
  assumes "n \<in> {''include-xids'', ''include-timestamp'', ''skip-empty-xacts'',
                 ''include-rewrites'', ''include-toast-datum''}"
  shows "startup_option h \<lparr>defname = n, arg = None\<rparr> st =
           Inl (reportUnknownParam \<lparr>defname = n, arg = None\<rparr>)"
  using assms by (auto simp: startup_option_def hasParameter_def split: prod.splits)

text \<open>
  C10. An option with one of the five names other than \<open>only-local\<close> and with no
  value is rejected by \<open>reportUnknownParam\<close>: when the options before it are accepted,
  startup raises the error whose message calls the option unknown and shows \<open>(null)\<close>
  for its value. It is neither accepted nor reported as a value that does not parse.
\<close>

theorem startup_missing_value_unknown:
  assumes "n \<in> {''include-xids'', ''include-timestamp'', ''skip-empty-xacts'',
                 ''include-rewrites'', ''include-toast-datum''}"
      and "pg_decode_startup h (ctx\<lparr>output_plugin_options := pre\<rparr>) opt is_init = Inr r"
  shows \<open>pg_decode_startup h
            (ctx\<lparr>output_plugin_options := pre @ \<lparr>defname = n, arg = None\<rparr> # post\<rparr>)
            opt is_init
          = Inl (reportUnknownParam \<lparr>defname = n, arg = None\<rparr>) \<and>
         reportUnknownParam \<lparr>defname = n, arg = None\<rparr>
          = ERRCODE_INVALID_PARAMETER_VALUE (''option "'' @ n @ ''" = "(null)" is unknown'')\<close>
proof -
  let ?st = "(startup_data,
              opt\<lparr>output_type := OUTPUT_PLUGIN_TEXTUAL_OUTPUT, receive_rewrites := False\<rparr>)"
  from assms(2) obtain st' where pre: "startup_options h pre ?st = Inr st'"
    by (auto simp: pg_decode_startup_def Let_def split: sum.splits)
  have "startup_options h (pre @ \<lparr>defname = n, arg = None\<rparr> # post) ?st
          = Inl (reportUnknownParam \<lparr>defname = n, arg = None\<rparr>)"
    by (simp add: startup_options_append pre startup_option_no_value [OF assms(1)])
  then show ?thesis
    by (simp add: pg_decode_startup_def Let_def reportUnknownParam_def)
qed

text \<open>
  The theorem at work: \<open>include-xids\<close> without a value, after an option that is
  accepted and before one that would be.
\<close>

theorem startup_missing_value_unknown_witness:
  \<open>''include-xids'' \<in> {''include-xids'', ''include-timestamp'', ''skip-empty-xacts'',
                 ''include-rewrites'', ''include-toast-datum''} \<and>
   pg_decode_startup example_host
      (example_ctx\<lparr>output_plugin_options :=
         [\<lparr>defname = ''include-timestamp'', arg = Some ''false''\<rparr>]\<rparr>)
      example_opt False
    = Inr (example_ctx\<lparr>output_plugin_options :=
             [\<lparr>defname = ''include-timestamp'', arg = Some ''false''\<rparr>],
             output_plugin_private := startup_data\<lparr>include_timestamp := False\<rparr>\<rparr>,
           example_opt\<lparr>output_type := OUTPUT_PLUGIN_TEXTUAL_OUTPUT,
                       receive_rewrites := False\<rparr>) \<and>
   pg_decode_startup example_host
      (example_ctx\<lparr>output_plugin_options :=
         [\<lparr>defname = ''include-timestamp'', arg = Some ''false''\<rparr>] @
         \<lparr>defname = ''include-xids'', arg = None\<rparr> #
         [\<lparr>defname = ''only-local'', arg = Some ''true''\<rparr>]\<rparr>)
      example_opt False
    = Inl (ERRCODE_INVALID_PARAMETER_VALUE ''option "include-xids" = "(null)" is unknown'')\<close>
proof -
  have a: "''include-xids'' \<in> {''include-xids'', ''include-timestamp'', ''skip-empty-xacts'',
                 ''include-rewrites'', ''include-toast-datum''}"
    by simp
  have b: "pg_decode_startup example_host
      (example_ctx\<lparr>output_plugin_options :=
         [\<lparr>defname = ''include-timestamp'', arg = Some ''false''\<rparr>]\<rparr>)
      example_opt False
    = Inr (example_ctx\<lparr>output_plugin_options :=
             [\<lparr>defname = ''include-timestamp'', arg = Some ''false''\<rparr>],
             output_plugin_private := startup_data\<lparr>include_timestamp := False\<rparr>\<rparr>,
           example_opt\<lparr>output_type := OUTPUT_PLUGIN_TEXTUAL_OUTPUT,
                       receive_rewrites := False\<rparr>)"
    by (simp add: pg_decode_startup_def Let_def startup_option_def hasParameter_def
        parse_bool_arg_def example_host_def)
  show ?thesis
    using startup_missing_value_unknown
            [OF a b, of "[\<lparr>defname = ''only-local'', arg = Some ''true''\<rparr>]"] b
    by simp
qed

text \<open>
  C3. \<open>only-local\<close> without a value should set the flag, and with a value the value
  should be parsed. The test of \<open>elem->arg\<close> is the other way round: with the value
  \<open>false\<close>, which the parser of the host reads as false, the flag is set and the
  filter suppresses a change of origin 1; without a value \<open>strVal\<close> reads through
  \<open>NULL\<close>.
\<close>

theorem only_local_inverted:
  "parse_bool example_host ''false'' = Some False \<and>
   pg_decode_startup example_host
     (example_ctx\<lparr>output_plugin_options := [\<lparr>defname = ''only-local'', arg = Some ''false''\<rparr>]\<rparr>)
     example_opt False
   = Inr (example_ctx\<lparr>output_plugin_options :=
                        [\<lparr>defname = ''only-local'', arg = Some ''false''\<rparr>],
                      output_plugin_private := startup_data\<lparr>only_local := True\<rparr>\<rparr>,
          example_opt\<lparr>output_type := OUTPUT_PLUGIN_TEXTUAL_OUTPUT\<rparr>) \<and>
   pg_decode_filter (example_ctx\<lparr>output_plugin_private := startup_data\<lparr>only_local := True\<rparr>\<rparr>) 1 \<and>
   pg_decode_startup example_host
     (example_ctx\<lparr>output_plugin_options := [\<lparr>defname = ''only-local'', arg = None\<rparr>]\<rparr>)
     example_opt False
   = Inl NULL_POINTER_DEREFERENCE"
  by (simp add: pg_decode_startup_def Let_def startup_option_def hasParameter_def
      parse_bool_arg_def example_host_def example_opt_def example_ctx_def pg_decode_filter_def
      InvalidRepOriginId_def startup_data_def)

text \<open>
  C6. A recognized option whose value is no boolean should end the startup with an
  error. For \<open>only-local\<close> the value is never parsed: \<open>banana\<close>, which the parser of
  the host rejects, is accepted and sets the flag.
\<close>

theorem only_local_unparsed_value_accepted:
  "parse_bool example_host ''banana'' = None \<and>
   pg_decode_startup example_host
     (example_ctx\<lparr>output_plugin_options := [\<lparr>defname = ''only-local'', arg = Some ''banana''\<rparr>]\<rparr>)
     example_opt False
   = Inr (example_ctx\<lparr>output_plugin_options :=
                        [\<lparr>defname = ''only-local'', arg = Some ''banana''\<rparr>],
                      output_plugin_private := startup_data\<lparr>only_local := True\<rparr>\<rparr>,
          example_opt\<lparr>output_type := OUTPUT_PLUGIN_TEXTUAL_OUTPUT\<rparr>)"
  by (simp add: pg_decode_startup_def Let_def startup_option_def hasParameter_def
      parse_bool_arg_def example_host_def example_opt_def example_ctx_def startup_data_def)

subsection \<open>Transaction framing\<close>

text \<open>
  C5. A transaction that begins and commits with no change in between hands no record to
  the transport, whatever the configuration. With \<open>skip_empty_xacts\<close> the session only
  clears \<open>xact_wrote_changes\<close>; without it the begin also captures the transaction id
  and the commit time, each if its flag is set, and nothing else changes.
\<close>

theorem empty_transaction:
  "written (pg_decode_commit (pg_decode_begin ctx txn) txn commit_lsn) = written ctx \<and>
   out (pg_decode_commit (pg_decode_begin ctx txn) txn commit_lsn) = out ctx \<and>
   output_plugin_private (pg_decode_commit (pg_decode_begin ctx txn) txn commit_lsn) =
     (let data = output_plugin_private ctx in
      if skip_empty_xacts data then data\<lparr>xact_wrote_changes := False\<rparr>
      else data\<lparr>xact_wrote_changes := False,
                xid := (if include_xids data then txn_xid txn else xid data),
                commit_time := (if include_timestamp data then txn_commit_time txn
                                else commit_time data)\<rparr>)"
  by (simp add: pg_decode_commit_def pg_decode_begin_def pg_output_begin_def Let_def)

subsection \<open>The row encoder\<close>

lemma OidOutputFunctionCall_detoast:
  "OidOutputFunctionCall (PG_DETOAST_DATUM d) = OidOutputFunctionCall d"
  by (cases d) (simp_all add: OidOutputFunctionCall_def PG_DETOAST_DATUM_def)

lemma tuple_to_json_field_text:
  "tuple_to_json_field h s natt attr origval include_toast =
     s @ json_field h natt attr origval include_toast"
proof (cases origval)
  case None
  then show ?thesis
    by (simp add: tuple_to_json_field_def json_field_def json_value_def Let_def)
next
  case (Some d)
  then show ?thesis
    by (simp add: tuple_to_json_field_def json_field_def json_value_def Let_def
        OidOutputFunctionCall_detoast
        print_literal_append [of "_ @ _"] print_literal_append [of "_ # _"])
qed

text \<open>The loop in closed form: the fields of the columns that pass the filter.\<close>

lemma fields_from_concat:
  "tuple_to_json_fields_from h s natt attrs tuple skip_nulls include_toast =
     s @ concat (map (\<lambda>(n, attr). json_field h n attr (heap_getattr tuple (n + 1)) include_toast)
                  (filter (column_written tuple skip_nulls) (enumerate natt attrs)))"
proof (induction attrs arbitrary: s natt)
  case Nil
  show ?case by simp
next
  case (Cons attr attrs)
  show ?case
  proof (cases "column_written tuple skip_nulls (natt, attr)")
    case True
    then show ?thesis
      using Cons.IH [of "tuple_to_json_field h s natt attr (heap_getattr tuple (natt + 1))
                           include_toast" "Suc natt"]
      by (auto simp: column_written_def isColumnDeleted_def isSystemColumn_def Let_def
          tuple_to_json_field_text)
  next
    case False
    then show ?thesis
      using Cons.IH [of s "Suc natt"]
      by (auto simp: column_written_def isColumnDeleted_def isSystemColumn_def Let_def)
  qed
qed

lemma fields_from_append_columns:
  "tuple_to_json_fields_from h s natt (pre @ post) tuple skip_nulls include_toast =
     tuple_to_json_fields_from h
       (tuple_to_json_fields_from h s natt pre tuple skip_nulls include_toast)
       (natt + length pre) post tuple skip_nulls include_toast"
  by (simp add: fields_from_concat enumerate_append_eq)

text \<open>The loop reads the row at the columns it visits, and nowhere else.\<close>

lemma fields_from_cong:
  assumes "\<And>n. natt \<le> n \<Longrightarrow> n < natt + length attrs \<Longrightarrow>
             heap_getattr t (Suc n) = heap_getattr t' (Suc n)"
  shows "tuple_to_json_fields_from h s natt attrs t skip_nulls include_toast =
         tuple_to_json_fields_from h s natt attrs t' skip_nulls include_toast"
proof -
  have same: "heap_getattr t (Suc n) = heap_getattr t' (Suc n)"
    if "(n, attr) \<in> set (enumerate natt attrs)" for n attr
    using that assms [of n] by (auto simp: in_set_enumerate_eq)
  have f: "filter (column_written t skip_nulls) (enumerate natt attrs)
         = filter (column_written t' skip_nulls) (enumerate natt attrs)"
    by (rule filter_cong) (auto simp: column_written_def same)
  have m: "map (\<lambda>(n, attr). json_field h n attr (heap_getattr t (n + 1)) include_toast)
             (filter (column_written t' skip_nulls) (enumerate natt attrs))
         = map (\<lambda>(n, attr). json_field h n attr (heap_getattr t' (n + 1)) include_toast)
             (filter (column_written t' skip_nulls) (enumerate natt attrs))"
    by (rule map_cong) (auto simp: same)
  show ?thesis
    by (simp only: fields_from_concat f m)
qed

lemma heap_getattr_before:
  "n < length before \<Longrightarrow> heap_getattr (before @ rest) (Suc n) = heap_getattr before (Suc n)"
  by (simp add: heap_getattr_def nth_append)

lemma heap_getattr_here: "heap_getattr (before @ v # after) (Suc (length before)) = v"
  by (simp add: heap_getattr_def)

lemma heap_getattr_after:
  "length before < n \<Longrightarrow>
   heap_getattr (before @ v # after) (Suc n) = heap_getattr (before @ v' # after) (Suc n)"
  by (simp add: heap_getattr_def nth_append)

lemma toast_step:
  assumes "\<not> isColumnDeleted attr" and "\<not> isSystemColumn attr"
      and "typisvarlena h (atttypid attr)"
      and "length before = length pre"
  shows \<open>tuple_to_json_fields h s (pre @ attr # post)
            (before @ Some (ExternalOnDisk text) # after) skip_nulls False
     = tuple_to_json_fields_from h
         (tuple_to_json_fields h s pre before skip_nulls False
            @ (if pre = [] then [] else '','') @ '' "'' @ quote_identifier h (attname attr)
            @ ''": unchanged-toast-datum'')
         (length pre + 1) post (before @ Some (ExternalOnDisk text) # after) skip_nulls False\<close>
proof -
  let ?t = "before @ Some (ExternalOnDisk text) # after"
  have pre: "tuple_to_json_fields_from h s 0 pre ?t skip_nulls False
             = tuple_to_json_fields_from h s 0 pre before skip_nulls False"
    using assms(4) by (intro fields_from_cong) (simp add: heap_getattr_before)
  have val: "heap_getattr ?t (Suc (length pre)) = Some (ExternalOnDisk text)"
    using heap_getattr_here [of before "Some (ExternalOnDisk text)" after] assms(4) by simp
  show ?thesis
    using assms(1-3) val
    by (simp add: tuple_to_json_fields_def fields_from_append_columns pre Let_def
        tuple_to_json_field_text json_field_def json_value_def VARATT_IS_EXTERNAL_ONDISK_def)
qed

text \<open>
  C8. A column that is written, whose type is of variable length and whose value is
  stored out of line on disk, in a session that does not include such values: the row
  encoder writes the fields of the columns before it, then the name of the column with
  the token \<open>unchanged-toast-datum\<close> for its value, then the fields of the columns
  after it. The text of the value does not enter the result: the row with the empty text
  in its place gives the same.
\<close>

theorem toast_placeholder:
  assumes "\<not> isColumnDeleted attr" and "\<not> isSystemColumn attr"
      and "typisvarlena h (atttypid attr)"
      and "length before = length pre"
  shows \<open>tuple_to_json_fields h s (pre @ attr # post)
            (before @ Some (ExternalOnDisk text) # after) skip_nulls False
     = tuple_to_json_fields_from h
         (tuple_to_json_fields h s pre before skip_nulls False
            @ (if pre = [] then [] else '','') @ '' "'' @ quote_identifier h (attname attr)
            @ ''": unchanged-toast-datum'')
         (length pre + 1) post (before @ Some (ExternalOnDisk []) # after) skip_nulls False\<close>
proof -
  have "tuple_to_json_fields_from h s' (length pre + 1) post
          (before @ Some (ExternalOnDisk text) # after) skip_nulls False
      = tuple_to_json_fields_from h s' (length pre + 1) post
          (before @ Some (ExternalOnDisk []) # after) skip_nulls False" for s'
    using assms(4) by (intro fields_from_cong heap_getattr_after) simp
  then show ?thesis
    using toast_step [OF assms] by simp
qed

lemmas row_defs = Let_def tuple_to_json_fields_def
  tuple_to_json_field_def heap_getattr_def isColumnDeleted_def isSystemColumn_def
  print_literal_def oid_defs VARATT_IS_EXTERNAL_ONDISK_def PG_DETOAST_DATUM_def
  OidOutputFunctionCall_def SQL_STR_DOUBLE_def example_host_def

text \<open>The theorem at work on a row whose second column is stored out of line.\<close>

theorem toast_placeholder_witness:
  \<open>\<not> isColumnDeleted (toast_table ! 1) \<and> \<not> isSystemColumn (toast_table ! 1) \<and>
   typisvarlena example_host (atttypid (toast_table ! 1)) \<and>
   length [Some (Inline ''6'')] = length [toast_table ! 0] \<and>
   tuple_to_json_fields example_host [] ([toast_table ! 0] @ toast_table ! 1 # [toast_table ! 2])
     ([Some (Inline ''6'')] @ Some (ExternalOnDisk ''a long text'') # [Some (Inline ''t'')])
     False False
   = '' "id": 6, "body": unchanged-toast-datum, "state": true''\<close>
proof -
  have a: "\<not> isColumnDeleted (toast_table ! 1)"
    by (simp add: toast_table_def isColumnDeleted_def)
  have b: "\<not> isSystemColumn (toast_table ! 1)"
    by (simp add: toast_table_def isSystemColumn_def)
  have c: "typisvarlena example_host (atttypid (toast_table ! 1))"
    by (simp add: toast_table_def example_host_def oid_defs)
  have d: "length [Some (Inline ''6'')] = length [toast_table ! 0]"
    by simp
  show ?thesis
    using a b c d
      toast_placeholder [OF a b c d, of "[]" "[toast_table ! 2]" "''a long text''"
        "[Some (Inline ''t'')]" False]
    by (simp add: toast_table_def row_defs)
qed

subsection \<open>The change encoder\<close>

lemmas change_defs = pg_decode_change_def pg_output_begin_def records_of_def
  example_ctx_def startup_data_def example_txn_def test_table_def decimal.simps



lemma skip_ws_blank [simp]: "skip_ws (CHR '' '' # input) = skip_ws input"
  by (simp add: skip_ws_def json_ws_def)

lemma skip_ws_marks [simp]:
  "skip_ws (CHR 0x22 # input) = CHR 0x22 # input"
  "skip_ws (CHR '','' # input) = CHR '','' # input"
  "skip_ws (CHR ''}'' # input) = CHR ''}'' # input"
  "skip_ws (CHR ''{'' # input) = CHR ''{'' # input"
  "skip_ws (CHR '':'' # input) = CHR '':'' # input"
  by (simp_all add: skip_ws_def json_ws_def)






































text \<open>
  C2, as the code has it. The insert of the example, in a session that includes commit
  times and transaction ids, on a host that leaves the five identifiers unquoted, hands
  over one record: the fields and the values of the example, in its order, behind the
  separators that the code writes, a comma or a colon followed by a blank and the blanks
  around the operation field and inside the braces. The operation field is named
  \<open>pg_change_type\<close>.
\<close>

theorem insert_example_record:
  assumes "include_timestamp (output_plugin_private ctx)"
      and "include_xids (output_plugin_private ctx)"
      and "quote_qualified_identifier h ''public'' ''test_table'' = ''public.test_table''"
      and "quote_identifier h ''id'' = ''id''"
      and "quote_identifier h ''state'' = ''state''"
      and "quote_identifier h ''date'' = ''date''"
  shows \<open>records_of (pg_decode_change h ctx txn test_table example_insert)
     = written ctx @
       [''{ "pg_change_table": "public.test_table", "pg_change_tnx_time": "''
          @ timestamptz_to_str h (txn_commit_time txn)
          @ ''", "pg_change_tnx_id": '' @ decimal (unat (txn_xid txn))
          @ '',  "pg_change_type": "INSERT",  "id": 6, "state": true, "date": "2019-02-14 14:36:20.308138" }'']\<close>
proof -
  have pg_ts: "include_timestamp (pg_output_begin ctx d txn False) = include_timestamp d"
    for d by (simp add: pg_output_begin_def Let_def)
  have pg_x: "include_xids (pg_output_begin ctx d txn False) = include_xids d"
    for d by (simp add: pg_output_begin_def Let_def)
  show ?thesis
    using assms
    by (simp add: pg_decode_change_def Let_def pg_ts pg_x tuple_to_json_fields_def
        tuple_to_json_field_def heap_getattr_def isColumnDeleted_def isSystemColumn_def
        print_literal_def oid_defs VARATT_IS_EXTERNAL_ONDISK_def PG_DETOAST_DATUM_def
        OidOutputFunctionCall_def SQL_STR_DOUBLE_def records_of_def test_table_def
        example_insert_def)
qed

text \<open>The theorem at work in the session and transaction of the example.\<close>

theorem insert_example_record_witness:
  \<open>include_timestamp (output_plugin_private example_ctx) \<and>
   include_xids (output_plugin_private example_ctx) \<and>
   quote_qualified_identifier example_host ''public'' ''test_table'' = ''public.test_table'' \<and>
   quote_identifier example_host ''id'' = ''id'' \<and>
   quote_identifier example_host ''state'' = ''state'' \<and>
   quote_identifier example_host ''date'' = ''date'' \<and>
   records_of (pg_decode_change example_host example_ctx example_txn test_table example_insert)
     = written example_ctx @
       [''{ "pg_change_table": "public.test_table", "pg_change_tnx_time": "''
          @ timestamptz_to_str example_host (txn_commit_time example_txn)
          @ ''", "pg_change_tnx_id": '' @ decimal (unat (txn_xid example_txn))
          @ '',  "pg_change_type": "INSERT",  "id": 6, "state": true, "date": "2019-02-14 14:36:20.308138" }'']\<close>
proof -
  have a: "include_timestamp (output_plugin_private example_ctx)"
    by (simp add: example_ctx_def startup_data_def)
  have b: "include_xids (output_plugin_private example_ctx)"
    by (simp add: example_ctx_def startup_data_def)
  have c: "quote_qualified_identifier example_host ''public'' ''test_table''
             = ''public.test_table''"
    by (simp add: example_host_def)
  have d: "quote_identifier example_host ''id'' = ''id''"
    by (simp add: example_host_def)
  have e: "quote_identifier example_host ''state'' = ''state''"
    by (simp add: example_host_def)
  have f: "quote_identifier example_host ''date'' = ''date''"
    by (simp add: example_host_def)
  from a b c d e f insert_example_record [OF a b c d e f, of example_txn]
  show ?thesis by (intro conjI)
qed

text \<open>
  C2 as it is stated fails: the record of the example has blanks that the literal of the
  wire format has not, and its operation field is named \<open>pg_change_type\<close>.
\<close>

theorem insert_example_differs:
  \<open>records_of (pg_decode_change example_host example_ctx example_txn test_table example_insert)
     = [''{ "pg_change_table": "public.test_table", "pg_change_tnx_time": "2019-02-19 00:52:28.467626-05", "pg_change_tnx_id": 4542284,  "pg_change_type": "INSERT",  "id": 6, "state": true, "date": "2019-02-14 14:36:20.308138" }''] \<and>
   records_of (pg_decode_change example_host example_ctx example_txn test_table example_insert)
     \<noteq> [wire_format_example]\<close>
proof -
  have r: \<open>records_of
             (pg_decode_change example_host example_ctx example_txn test_table example_insert)
     = [''{ "pg_change_table": "public.test_table", "pg_change_tnx_time": "2019-02-19 00:52:28.467626-05", "pg_change_tnx_id": 4542284,  "pg_change_type": "INSERT",  "id": 6, "state": true, "date": "2019-02-14 14:36:20.308138" }'']\<close>
    by (simp add: change_defs row_defs example_insert_def)
  have "hd (tl (hd (records_of
          (pg_decode_change example_host example_ctx example_txn test_table example_insert))))
        \<noteq> hd (tl wire_format_example)"
    by (simp add: r wire_format_example_def)
  then have "records_of
          (pg_decode_change example_host example_ctx example_txn test_table example_insert)
        \<noteq> [wire_format_example]"
    by auto
  with r show ?thesis by simp
qed

text \<open>
  The default case of the switch is \<open>Assert(false)\<close>: in a build that checks
  assertions, a change whose operation is none of the three ends in the failed
  assertion, and no record is handed over.
\<close>

lemma unknown_action_assert:
  assumes "USE_ASSERT_CHECKING h"
      and "action change \<notin> {REORDER_BUFFER_CHANGE_INSERT, REORDER_BUFFER_CHANGE_UPDATE,
                              REORDER_BUFFER_CHANGE_DELETE}"
  shows "pg_decode_change h ctx txn relation change = Inl ASSERT_FAILURE \<and>
         records_of (pg_decode_change h ctx txn relation change) = []"
proof -
  have "pg_decode_change h ctx txn relation change = Inl ASSERT_FAILURE"
    using assms by (cases "action change") (simp_all add: pg_decode_change_def Let_def)
  then show ?thesis by (simp add: records_of_def)
qed


end
